theory Spec2Isabelle
  imports Main
begin

section \<open>Strings\<close>

text \<open>
  Identifiers and names are JavaScript strings. A string is modelled as a list of
  code units below 256. An identifier (\<open>oid\<close>) is the text that
  \<^verbatim>\<open>ObjectId.toString()\<close> yields, and a request carries identifiers in that form.
\<close>

type_synonym oid = string

text \<open>\<^verbatim>\<open>String.prototype.trim\<close>: the white space of JavaScript among the code units below 256.\<close>

definition isWhiteSpace :: "char \<Rightarrow> bool" where
  "isWhiteSpace c =
     (c \<in> set [CHR 0x09, CHR 0x0A, CHR 0x0B, CHR 0x0C, CHR 0x0D, CHR 0x20, CHR 0xA0])"

definition trim :: "string \<Rightarrow> string" where
  "trim s = rev (dropWhile isWhiteSpace (rev (dropWhile isWhiteSpace s)))"

definition toLowerChar :: "char \<Rightarrow> char" where
  "toLowerChar c =
     (case map_of (zip ''ABCDEFGHIJKLMNOPQRSTUVWXYZ'' ''abcdefghijklmnopqrstuvwxyz'') c of
        Some d \<Rightarrow> d
      | None \<Rightarrow> c)"

definition toLower :: "string \<Rightarrow> string" where
  "toLower s = map toLowerChar s"

text \<open>
  The query \<^verbatim>\<open>{ name: { $regex: `^${pat}$`, $options: 'i' } }\<close> splices the text
  \<open>pat\<close> into a regular expression unescaped. When \<open>pat\<close> consists of letters,
  digits and spaces the expression is a literal: it matches a subject that equals
  \<open>pat\<close> up to the case of letters, also when one line feed follows (the \<open>$\<close> of
  the expression matches before a final line feed). For any other \<open>pat\<close> the outcome
  is that of the store's regular expression engine, a parameter \<open>pcre\<close> here, which
  receives the expression and the subject.
\<close>

definition isPlainChar :: "char \<Rightarrow> bool" where
  "isPlainChar c =
     (c \<in> set (''ABCDEFGHIJKLMNOPQRSTUVWXYZ'' @ ''abcdefghijklmnopqrstuvwxyz''
               @ ''0123456789'' @ '' ''))"

definition regexAnchoredI :: "(string \<Rightarrow> string \<Rightarrow> bool) \<Rightarrow> string \<Rightarrow> string \<Rightarrow> bool" where
  "regexAnchoredI pcre pat subject =
     (if list_all isPlainChar pat
      then toLower subject = toLower pat \<or> toLower subject = toLower pat @ [CHR 0x0A]
      else pcre (''^'' @ pat @ ''$'') subject)"

section \<open>The Skill collection\<close>

record skill =
  skill_id :: oid
  skill_name :: string

text \<open>Errors a store operation throws; a controller's \<^verbatim>\<open>catch\<close> turns them into a response.\<close>

datatype store_error =
    ValidationError
  | DuplicateKey
  | CastError
  | SelfConnectionError
  | TypeError

text \<open>
  \<^verbatim>\<open>Skill.create({ name })\<close>. The schema trims the name, requires it, and keeps a unique
  index on it (exact comparison); the identifier \<open>newId\<close> is the one the driver
  generates for the document, and identifiers are unique in a collection.
\<close>

definition Skill_create :: "oid \<Rightarrow> string \<Rightarrow> skill list \<Rightarrow> store_error + (skill \<times> skill list)" where
  "Skill_create newId nm skills =
     (let n = trim nm in
      if n = [] then Inl ValidationError
      else if n \<in> set (map skill_name skills) \<or> newId \<in> set (map skill_id skills)
      then Inl DuplicateKey
      else (let doc = \<lparr>skill_id = newId, skill_name = n\<rparr> in Inr (doc, skills @ [doc])))"

definition Skill_findOne_regex ::
  "(string \<Rightarrow> string \<Rightarrow> bool) \<Rightarrow> string \<Rightarrow> skill list \<Rightarrow> skill option" where
  "Skill_findOne_regex pcre pat skills = find (\<lambda>s. regexAnchoredI pcre pat (skill_name s)) skills"

text \<open>
  \<^verbatim>\<open>getOrCreateSkill(skill)\<close>. \<open>isValid\<close> is \<^verbatim>\<open>mongoose.Types.ObjectId.isValid\<close>.
  The function awaits the lookup and then the creation: \<open>others\<close> is what other
  requests did to the collection in between (the identity when the call runs alone).
  A thrown error is the \<open>Inl\<close> result; the function has no \<^verbatim>\<open>try\<close>.
\<close>

definition getOrCreateSkill ::
  "(string \<Rightarrow> bool) \<Rightarrow> (string \<Rightarrow> string \<Rightarrow> bool) \<Rightarrow> (skill list \<Rightarrow> skill list) \<Rightarrow> oid \<Rightarrow>
   string \<Rightarrow> skill list \<Rightarrow> (store_error + oid) \<times> skill list" where
  "getOrCreateSkill isValid pcre others newId skill skills =
     (if isValid skill then (Inr skill, skills)
      else (case Skill_findOne_regex pcre (trim skill) skills of
              Some skillDoc \<Rightarrow> (Inr (skill_id skillDoc), skills)
            | None \<Rightarrow>
                (let skills1 = others skills in
                 case Skill_create newId (trim skill) skills1 of
                   Inl err \<Rightarrow> (Inl err, skills1)
                 | Inr (skillDoc, skills2) \<Rightarrow> (Inr (skill_id skillDoc), skills2))))"

text \<open>The string case of \<^verbatim>\<open>ObjectId.isValid\<close> in the current driver: 24 hexadecimal digits.\<close>

definition isHex24 :: "string \<Rightarrow> bool" where
  "isHex24 s = (length s = 24 \<and> list_all (\<lambda>c. c \<in> set ''0123456789abcdefABCDEF'') s)"

section \<open>Users, connections and messages\<close>

datatype ConnectionStatus = PENDING | ACCEPTED | REJECTED | BLOCKED

record user =
  user_id :: oid
  user_name :: string
  user_email :: string
  user_photoURL :: string

record connection =
  conn_id :: oid
  requester :: oid
  recipient :: oid
  status :: ConnectionStatus
  message :: "string option"
  createdAt :: nat

record chat_message =
  msg_id :: oid
  msg_sender :: oid
  msg_recipient :: oid
  msg_content :: string
  msg_read :: bool
  msg_createdAt :: nat

text \<open>
  What \<^verbatim>\<open>populate(path, 'name email photoURL')\<close> puts in place of a reference: the
  selected fields of the user, or \<^verbatim>\<open>null\<close> (\<open>None\<close>) when no such user exists.
\<close>

record user_summary =
  sum_id :: oid
  sum_name :: string
  sum_email :: string
  sum_photoURL :: string

record populated_connection =
  pc_id :: oid
  pc_requester :: "user_summary option"
  pc_recipient :: "user_summary option"
  pc_status :: ConnectionStatus
  pc_message :: "string option"
  pc_createdAt :: nat

text \<open>The JSON bodies of the responses, and a response: the HTTP status code with its body.\<close>

datatype body =
    Error string
  | ErrorStatus string ConnectionStatus
  | ServerError store_error
  | MessageOnly string
  | MessageConnection string populated_connection
  | MessageRawConnection string connection
  | StatusNone
  | StatusInfo ConnectionStatus string connection
  | AllConnections nat "populated_connection list" "populated_connection list"
      "populated_connection list"
  | SkillDoc skill
  | MessageDoc chat_message

datatype response = Response nat body

section \<open>The skill controller\<close>

text \<open>\<^verbatim>\<open>createSkill\<close>; \<open>nameField\<close> is \<^verbatim>\<open>req.body.name\<close>, \<open>None\<close> when it is missing.\<close>

definition createSkill :: "oid \<Rightarrow> string option \<Rightarrow> skill list \<Rightarrow> response \<times> skill list" where
  "createSkill newId nameField skills =
     (case nameField of
        None \<Rightarrow> (Response 400 (Error ''Skill name is required''), skills)
      | Some nm \<Rightarrow>
          if nm = [] \<or> trim nm = [] then (Response 400 (Error ''Skill name is required''), skills)
          else (case find (\<lambda>s. skill_name s = trim nm) skills of
                  Some existingSkill \<Rightarrow> (Response 400 (Error ''Skill already exists''), skills)
                | None \<Rightarrow>
                    (case Skill_create newId (trim nm) skills of
                       Inl err \<Rightarrow> (Response 500 (ServerError err), skills)
                     | Inr (doc, skills1) \<Rightarrow> (Response 201 (SkillDoc doc), skills1))))"

text \<open>Replace the first element that satisfies \<open>P\<close>.\<close>

primrec update_first :: "('a \<Rightarrow> bool) \<Rightarrow> 'a \<Rightarrow> 'a list \<Rightarrow> 'a list" where
  "update_first P y [] = []"
| "update_first P y (x # xs) = (if P x then y # xs else x # update_first P y xs)"


text \<open>
  \<^verbatim>\<open>updateSkill\<close>: \<^verbatim>\<open>Skill.findByIdAndUpdate(req.params.id, { name: name.trim() })\<close>.
  The identifier is not checked before the query, which throws when it cannot be cast;
  the unique index on the name rejects an update to the exact name of another document.
\<close>

definition updateSkill ::
  "(string \<Rightarrow> bool) \<Rightarrow> string \<Rightarrow> string option \<Rightarrow> skill list \<Rightarrow> response \<times> skill list" where
  "updateSkill isValid ident nameField skills =
     (case nameField of
        None \<Rightarrow> (Response 400 (Error ''Skill name is required''), skills)
      | Some nm \<Rightarrow>
          if nm = [] \<or> trim nm = [] then (Response 400 (Error ''Skill name is required''), skills)
          else if \<not> isValid ident then (Response 500 (ServerError CastError), skills)
          else (case find (\<lambda>s. skill_id s = ident) skills of
                  None \<Rightarrow> (Response 404 (Error ''Skill not found''), skills)
                | Some doc \<Rightarrow>
                    if list_ex (\<lambda>s. skill_id s \<noteq> ident \<and> skill_name s = trim nm) skills
                    then (Response 500 (ServerError DuplicateKey), skills)
                    else (Response 200 (SkillDoc (doc\<lparr>skill_name := trim nm\<rparr>)),
                          update_first (\<lambda>s. skill_id s = ident) (doc\<lparr>skill_name := trim nm\<rparr>)
                            skills)))"

text \<open>No two skills share a name under case-insensitive comparison of the trimmed names.\<close>

definition skill_names_unique :: "skill list \<Rightarrow> bool" where
  "skill_names_unique skills = distinct (map (\<lambda>s. toLower (trim (skill_name s))) skills)"

section \<open>The Connection model\<close>

definition User_findById :: "oid \<Rightarrow> user list \<Rightarrow> user option" where
  "User_findById ident users = find (\<lambda>u. user_id u = ident) users"







definition summary :: "user \<Rightarrow> user_summary" where
  "summary u = \<lparr>sum_id = user_id u, sum_name = user_name u, sum_email = user_email u,
                sum_photoURL = user_photoURL u\<rparr>"

definition populate :: "user list \<Rightarrow> connection \<Rightarrow> populated_connection" where
  "populate users c =
     \<lparr>pc_id = conn_id c,
      pc_requester = map_option summary (User_findById (requester c) users),
      pc_recipient = map_option summary (User_findById (recipient c) users),
      pc_status = status c, pc_message = message c, pc_createdAt = createdAt c\<rparr>"

text \<open>
  \<^verbatim>\<open>getUserConnections(userId, status?)\<close>: the user's connections in either role,
  of the given status when there is one, both references populated, newest first
  (connections of one creation time stay in the order of the collection).
\<close>

definition getUserConnections ::
  "user list \<Rightarrow> oid \<Rightarrow> ConnectionStatus option \<Rightarrow> connection list \<Rightarrow> populated_connection list" where
  "getUserConnections users userId st conns =
     map (populate users)
       (sort_key (\<lambda>c. - int (createdAt c))
          (filter (\<lambda>c. (requester c = userId \<or> recipient c = userId) \<and>
                        (case st of None \<Rightarrow> True | Some v \<Rightarrow> status c = v))
             conns))"

section \<open>The connection controller\<close>

text \<open>
  In every operation \<open>isValid\<close> is \<^verbatim>\<open>mongoose.Types.ObjectId.isValid\<close>, and the acting
  user's identifier (\<^verbatim>\<open>req.user._id\<close>) is the one the authentication middleware
  supplies. An operation returns its response and the collection it leaves.
\<close>









text \<open>
  \<^verbatim>\<open>Object.values(ConnectionStatus).includes(status)\<close> on the query parameter
  \<^verbatim>\<open>status\<close>: the status it names, if any.
\<close>

definition parseStatus :: "string \<Rightarrow> ConnectionStatus option" where
  "parseStatus q =
     (if q = ''pending'' then Some PENDING
      else if q = ''accepted'' then Some ACCEPTED
      else if q = ''rejected'' then Some REJECTED
      else if q = ''blocked'' then Some BLOCKED
      else None)"

text \<open>
  \<^verbatim>\<open>conn.requester.toString()\<close> on a connection that \<^verbatim>\<open>getUserConnections\<close>
  returned: the reference is populated, so the call is either on \<^verbatim>\<open>null\<close> (it
  throws) or on the populated user document, whose \<^verbatim>\<open>toString\<close> is the parameter
  \<open>docToString\<close>.
\<close>

definition refToString :: "(user_summary \<Rightarrow> string) \<Rightarrow> user_summary option \<Rightarrow> store_error + string" where
  "refToString docToString r = (case r of None \<Rightarrow> Inl TypeError | Some d \<Rightarrow> Inr (docToString d))"

definition getAllConnectionRequests ::
  "(user_summary \<Rightarrow> string) \<Rightarrow> user list \<Rightarrow> oid \<Rightarrow> string option \<Rightarrow> connection list \<Rightarrow> response" where
  "getAllConnectionRequests docToString users userId statusParam conns =
     (let connections =
            (case statusParam of
               None \<Rightarrow> getUserConnections users userId None conns
             | Some q \<Rightarrow>
                 (case parseStatus q of
                    Some st \<Rightarrow> getUserConnections users userId (Some st) conns
                  | None \<Rightarrow> getUserConnections users userId None conns))
      in if list_ex (\<lambda>conn. pc_requester conn = None) connections
            \<or> list_ex (\<lambda>conn. pc_recipient conn = None) connections
         then Response 500 (ServerError TypeError)
         else Response 200
                (AllConnections (length connections)
                   (filter (\<lambda>conn. refToString docToString (pc_requester conn) = Inr userId)
                      connections)
                   (filter (\<lambda>conn. refToString docToString (pc_recipient conn) = Inr userId)
                      connections)
                   connections))"

section \<open>The chat controller\<close>



section \<open>Invariants of the Connection collection\<close>


section \<open>Concrete inputs\<close>

text \<open>Identifiers of 24 hexadecimal digits, as the driver generates them.\<close>

definition id_a :: oid where "id_a = ''64b7f0c2a1d3e4f5a6b7c8a1''"
definition id_b :: oid where "id_b = ''64b7f0c2a1d3e4f5a6b7c8b2''"
definition id_c :: oid where "id_c = ''64b7f0c2a1d3e4f5a6b7c8c3''"
definition id_d :: oid where "id_d = ''64b7f0c2a1d3e4f5a6b7c8d4''"

text \<open>A regular expression engine that matches nothing, for inputs that never reach it.\<close>

definition pcre_none :: "string \<Rightarrow> string \<Rightarrow> bool" where
  "pcre_none expression subject = False"

text \<open>Nothing happens between the lookup and the creation.\<close>

definition alone :: "skill list \<Rightarrow> skill list" where
  "alone skills = skills"

text \<open>Another request creates the skill \<open>Rust\<close> between the lookup and the creation.\<close>

definition rival_creates_Rust :: "skill list \<Rightarrow> skill list" where
  "rival_creates_Rust skills = skills @ [\<lparr>skill_id = id_b, skill_name = ''Rust''\<rparr>]"

text \<open>Two users, and a connection that the first requested of the second.\<close>

definition users_ab :: "user list" where
  "users_ab =
     [\<lparr>user_id = id_a, user_name = ''Asha'', user_email = ''asha@example.com'',
        user_photoURL = ''a.png''\<rparr>,
      \<lparr>user_id = id_b, user_name = ''Ben'', user_email = ''ben@example.com'',
        user_photoURL = ''b.png''\<rparr>]"

definition conn_ab :: "ConnectionStatus \<Rightarrow> connection" where
  "conn_ab st = \<lparr>conn_id = id_c, requester = id_a, recipient = id_b, status = st,
                message = Some ''hi'', createdAt = 1\<rparr>"

text \<open>
  A rendering of a populated user document in the manner of Mongoose's
  \<^verbatim>\<open>Document.prototype.toString\<close>, which prints the document as the console would:
  the document's fields between braces, never the bare identifier.
\<close>

definition inspect_summary :: "user_summary \<Rightarrow> string" where
  "inspect_summary d =
     ''{ _id: '' @ sum_id d @ '', name: '' @ sum_name d @ '', email: '' @ sum_email d
       @ '', photoURL: '' @ sum_photoURL d @ '' }''"

text \<open>The three spellings of one skill name.\<close>

definition javascript_tokens :: "string list" where
  "javascript_tokens = [''javascript'', ''JavaScript'', ''  JavaScript  '']"

section \<open>Trimming and lower case\<close>

lemma isWhiteSpace_toLowerChar: "isWhiteSpace (toLowerChar c) = isWhiteSpace c"
  by (auto simp: toLowerChar_def isWhiteSpace_def split: option.splits if_splits)

lemma toLower_dropWhile: "toLower (dropWhile isWhiteSpace s) = dropWhile isWhiteSpace (toLower s)"
  by (simp add: toLower_def dropWhile_map comp_def isWhiteSpace_toLowerChar)

lemma toLower_trim: "toLower (trim s) = trim (toLower s)"
proof -
  have "toLower (rev xs) = rev (toLower xs)" for xs
    by (simp add: toLower_def rev_map)
  then show ?thesis
    by (simp add: trim_def toLower_dropWhile)
qed

lemma trim_snoc_space:
  assumes "isWhiteSpace c"
  shows "trim (x @ [c]) = trim x"
proof (cases "\<forall>y\<in>set x. isWhiteSpace y")
  case True
  then have "dropWhile isWhiteSpace x = []" and "dropWhile isWhiteSpace (x @ [c]) = []"
    using assms by simp_all
  then show ?thesis
    unfolding trim_def by (simp only: rev.simps dropWhile.simps)
next
  case False
  then have "dropWhile isWhiteSpace (x @ [c]) = dropWhile isWhiteSpace x @ [c]"
    by (simp add: dropWhile_append)
  then show ?thesis
    unfolding trim_def using assms by simp
qed

lemma dropWhile_rev_dropWhile:
  "dropWhile P (rev (dropWhile P (rev (dropWhile P s)))) = rev (dropWhile P (rev (dropWhile P s)))"
proof (cases "dropWhile P s")
  case Nil
  then show ?thesis
    by (simp only: rev.simps dropWhile.simps)
next
  case (Cons a t)
  then have na: "\<not> P a"
    by (metis hd_dropWhile list.sel(1) list.simps(3))
  have "\<exists>X. dropWhile P (rev t @ [a]) = X @ [a]"
    using na by (simp add: dropWhile_append)
  then obtain X where X: "dropWhile P (rev t @ [a]) = X @ [a]" ..
  have "rev (dropWhile P (rev (dropWhile P s))) = a # rev X"
    by (simp only: Cons rev.simps X rev_append append.simps)
  then show ?thesis
    using na by simp
qed

lemma trim_idem: "trim (trim s) = trim s"
  by (simp add: trim_def dropWhile_rev_dropWhile)

section \<open>The skill resolver\<close>

text \<open>
  C8. A token that is a syntactically valid identifier is returned as it is: whatever the
  collection holds (no skill under that identifier, or a skill whose name is the token),
  whatever the regular expression engine or other requests would do, the result is the
  token and the collection is the one the call found.
\<close>

theorem getOrCreateSkill_valid_identifier:
  "isValid token \<Longrightarrow>
   getOrCreateSkill isValid pcre others newId token skills = (Inr token, skills)"
  by (simp add: getOrCreateSkill_def)

theorem getOrCreateSkill_valid_identifier_witness:
  "isHex24 id_a \<and>
   getOrCreateSkill isHex24 pcre_none alone id_c id_a [\<lparr>skill_id = id_b, skill_name = id_a\<rparr>]
     = (Inr id_a, [\<lparr>skill_id = id_b, skill_name = id_a\<rparr>])"
proof -
  have v: "isHex24 id_a"
    by (simp add: isHex24_def id_a_def)
  show ?thesis
    using v getOrCreateSkill_valid_identifier
      [of isHex24 id_a pcre_none alone id_c "[\<lparr>skill_id = id_b, skill_name = id_a\<rparr>]"]
    by simp
qed

lemma find_append_None: "find P xs = None \<Longrightarrow> find P (xs @ ys) = find P ys"
  by (induction xs) (auto split: if_splits)

lemma regexAnchoredI_plain:
  assumes "list_all isPlainChar p" and "regexAnchoredI pcre p n"
  shows "toLower (trim n) = trim (toLower p)"
proof -
  have lf: "isWhiteSpace (CHR 0x0A)"
    by (simp add: isWhiteSpace_def)
  from assms have "toLower n = toLower p \<or> toLower n = toLower p @ [CHR 0x0A]"
    by (simp add: regexAnchoredI_def)
  then have "trim (toLower n) = trim (toLower p)"
    using trim_snoc_space [OF lf] by auto
  then show ?thesis
    by (simp add: toLower_trim)
qed

lemma javascript_tokens_trim:
  assumes "t \<in> set javascript_tokens"
  shows "list_all isPlainChar (trim t) \<and> toLower (trim t) = ''javascript'' \<and> trim t \<noteq> []"
proof -
  have a: "trim ''javascript'' = ''javascript''" and b: "trim ''JavaScript'' = ''JavaScript''"
    and c: "trim ''  JavaScript  '' = ''JavaScript''"
    by (simp_all add: trim_def isWhiteSpace_def)
  have d: "list_all isPlainChar ''javascript''" and e: "list_all isPlainChar ''JavaScript''"
    by (simp_all add: isPlainChar_def)
  have f: "toLower ''javascript'' = ''javascript''" and g: "toLower ''JavaScript'' = ''javascript''"
    by (simp_all add: toLower_def toLowerChar_def)
  from assms consider "t = ''javascript''" | "t = ''JavaScript''" | "t = ''  JavaScript  ''"
    by (auto simp: javascript_tokens_def)
  then show ?thesis
    by cases (simp_all only: a b c d e f g, simp_all)
qed

lemma javascript_lookup_miss:
  assumes "t \<in> set javascript_tokens"
    and "\<forall>s\<in>set skills. toLower (trim (skill_name s)) \<noteq> ''javascript''"
  shows "Skill_findOne_regex pcre (trim t) skills = None"
proof -
  have p: "list_all isPlainChar (trim t)" and l: "toLower (trim t) = ''javascript''"
    using javascript_tokens_trim [OF assms(1)] by simp_all
  have "trim (toLower (trim t)) = ''javascript''"
    unfolding l by (simp add: trim_def isWhiteSpace_def)
  then have "\<not> regexAnchoredI pcre (trim t) (skill_name s)" if "s \<in> set skills" for s
    using regexAnchoredI_plain [OF p] assms(2) that by metis
  then show ?thesis
    by (simp add: Skill_findOne_regex_def find_None_iff)
qed

lemma javascript_lookup_hit:
  assumes "t \<in> set javascript_tokens" and "u \<in> set javascript_tokens"
    and "\<forall>s\<in>set skills. toLower (trim (skill_name s)) \<noteq> ''javascript''"
  shows "Skill_findOne_regex pcre (trim u) (skills @ [\<lparr>skill_id = n, skill_name = trim t\<rparr>])
           = Some \<lparr>skill_id = n, skill_name = trim t\<rparr>"
proof -
  have miss: "find (\<lambda>s. regexAnchoredI pcre (trim u) (skill_name s)) skills = None"
    using javascript_lookup_miss [OF assms(2,3)] by (simp add: Skill_findOne_regex_def)
  have "regexAnchoredI pcre (trim u) (trim t)"
    using javascript_tokens_trim [OF assms(1)] javascript_tokens_trim [OF assms(2)]
    by (simp add: regexAnchoredI_def)
  then show ?thesis
    using find_append_None [OF miss] by (simp add: Skill_findOne_regex_def)
qed

text \<open>
  C3. Resolving \<open>javascript\<close>, \<open>JavaScript\<close> and \<open>JavaScript\<close> between spaces, in
  any order (each of \<open>t1\<close>, \<open>t2\<close>, \<open>t3\<close> is any of the three), one call after
  the other, from a collection with no skill of that name up to case: the first call
  creates one skill, under the generated identifier \<open>n1\<close>, and all three calls return
  \<open>n1\<close>; the second and the third leave the collection as the first left it.
\<close>

theorem getOrCreateSkill_javascript_idempotent:
  assumes "t1 \<in> set javascript_tokens" and "t2 \<in> set javascript_tokens"
    and "t3 \<in> set javascript_tokens"
    and "\<forall>t\<in>set javascript_tokens. \<not> isValid t"
    and "\<forall>s\<in>set skills. toLower (trim (skill_name s)) \<noteq> ''javascript''"
    and "n1 \<notin> set (map skill_id skills)"
  shows "getOrCreateSkill isValid pcre alone n1 t1 skills
           = (Inr n1, skills @ [\<lparr>skill_id = n1, skill_name = trim t1\<rparr>])
       \<and> getOrCreateSkill isValid pcre alone n2 t2 (skills @ [\<lparr>skill_id = n1, skill_name = trim t1\<rparr>])
           = (Inr n1, skills @ [\<lparr>skill_id = n1, skill_name = trim t1\<rparr>])
       \<and> getOrCreateSkill isValid pcre alone n3 t3 (skills @ [\<lparr>skill_id = n1, skill_name = trim t1\<rparr>])
           = (Inr n1, skills @ [\<lparr>skill_id = n1, skill_name = trim t1\<rparr>])"
proof -
  have fresh: "trim t1 \<notin> set (map skill_name skills)"
  proof
    assume "trim t1 \<in> set (map skill_name skills)"
    then obtain s where s: "s \<in> set skills" and "skill_name s = trim t1"
      by auto
    then have "toLower (trim (skill_name s)) = ''javascript''"
      using javascript_tokens_trim [OF assms(1)] by (simp add: trim_idem)
    then show False
      using assms(5) s by simp
  qed
  have "Skill_create n1 (trim t1) skills
          = Inr (\<lparr>skill_id = n1, skill_name = trim t1\<rparr>, skills @ [\<lparr>skill_id = n1, skill_name = trim t1\<rparr>])"
    using fresh assms(6) javascript_tokens_trim [OF assms(1)]
    by (simp add: Skill_create_def trim_idem Let_def)
  then have first: "getOrCreateSkill isValid pcre alone n1 t1 skills
           = (Inr n1, skills @ [\<lparr>skill_id = n1, skill_name = trim t1\<rparr>])"
    using assms(1,4) javascript_lookup_miss [OF assms(1,5)]
    by (simp add: getOrCreateSkill_def alone_def)
  have later: "getOrCreateSkill isValid pcre alone n u (skills @ [\<lparr>skill_id = n1, skill_name = trim t1\<rparr>])
           = (Inr n1, skills @ [\<lparr>skill_id = n1, skill_name = trim t1\<rparr>])"
    if "u \<in> set javascript_tokens" for u n
    using that assms(4) javascript_lookup_hit [OF assms(1) that assms(5)]
    by (simp add: getOrCreateSkill_def)
  show ?thesis
    using first later [OF assms(2)] later [OF assms(3)] by simp
qed

theorem getOrCreateSkill_javascript_idempotent_witness:
  "getOrCreateSkill isHex24 pcre_none alone id_b ''javascript'' [\<lparr>skill_id = id_a, skill_name = ''Python''\<rparr>]
     = (Inr id_b, [\<lparr>skill_id = id_a, skill_name = ''Python''\<rparr>, \<lparr>skill_id = id_b, skill_name = ''javascript''\<rparr>])
   \<and> getOrCreateSkill isHex24 pcre_none alone id_c ''JavaScript''
        [\<lparr>skill_id = id_a, skill_name = ''Python''\<rparr>, \<lparr>skill_id = id_b, skill_name = ''javascript''\<rparr>]
     = (Inr id_b, [\<lparr>skill_id = id_a, skill_name = ''Python''\<rparr>, \<lparr>skill_id = id_b, skill_name = ''javascript''\<rparr>])
   \<and> getOrCreateSkill isHex24 pcre_none alone id_d ''  JavaScript  ''
        [\<lparr>skill_id = id_a, skill_name = ''Python''\<rparr>, \<lparr>skill_id = id_b, skill_name = ''javascript''\<rparr>]
     = (Inr id_b, [\<lparr>skill_id = id_a, skill_name = ''Python''\<rparr>, \<lparr>skill_id = id_b, skill_name = ''javascript''\<rparr>])"
proof -
  have 1: "''javascript'' \<in> set javascript_tokens" and 2: "''JavaScript'' \<in> set javascript_tokens"
    and 3: "''  JavaScript  '' \<in> set javascript_tokens"
    by (simp_all add: javascript_tokens_def)
  have 4: "\<forall>t\<in>set javascript_tokens. \<not> isHex24 t"
    by (simp add: javascript_tokens_def isHex24_def)
  have 5: "\<forall>s\<in>set [\<lparr>skill_id = id_a, skill_name = ''Python''\<rparr>]. toLower (trim (skill_name s)) \<noteq> ''javascript''"
    by (simp add: trim_def isWhiteSpace_def toLower_def toLowerChar_def)
  have 6: "id_b \<notin> set (map skill_id [\<lparr>skill_id = id_a, skill_name = ''Python''\<rparr>])"
    by (simp add: id_a_def id_b_def)
  have 7: "trim ''javascript'' = ''javascript''"
    by (simp add: trim_def isWhiteSpace_def)
  show ?thesis
    using getOrCreateSkill_javascript_idempotent [OF 1 2 3 4 5 6, of pcre_none id_c id_d]
    by (simp only: 7 append.simps)
qed

text \<open>
  C2, as the code has it. When the lookup finds no skill and the creation is then
  refused by the unique index on the name, the call fails with the duplicate key error:
  nothing is fetched again, and the collection stays as the other requests left it.
\<close>

theorem getOrCreateSkill_duplicate_key_propagates:
  assumes "\<not> isValid skill"
    and "Skill_findOne_regex pcre (trim skill) skills = None"
    and "Skill_create newId (trim skill) (others skills) = Inl DuplicateKey"
  shows "getOrCreateSkill isValid pcre others newId skill skills = (Inl DuplicateKey, others skills)"
  using assms by (simp add: getOrCreateSkill_def)

theorem getOrCreateSkill_duplicate_key_propagates_witness:
  "\<not> isHex24 ''Rust''
   \<and> Skill_findOne_regex pcre_none (trim ''Rust'') [] = None
   \<and> Skill_create id_c (trim ''Rust'') (rival_creates_Rust []) = Inl DuplicateKey
   \<and> getOrCreateSkill isHex24 pcre_none rival_creates_Rust id_c ''Rust'' []
       = (Inl DuplicateKey, rival_creates_Rust [])"
proof -
  have 1: "\<not> isHex24 ''Rust''"
    by (simp add: isHex24_def)
  have 2: "Skill_findOne_regex pcre_none (trim ''Rust'') [] = None"
    by (simp add: Skill_findOne_regex_def)
  have 3: "Skill_create id_c (trim ''Rust'') (rival_creates_Rust []) = Inl DuplicateKey"
    by (simp add: Skill_create_def rival_creates_Rust_def trim_def isWhiteSpace_def Let_def)
  show ?thesis
    using 1 2 3
      getOrCreateSkill_duplicate_key_propagates
        [of isHex24 "''Rust''" pcre_none "[]" id_c rival_creates_Rust]
    by simp
qed

text \<open>
  C2 as stated fails. The lookup of \<open>Rust\<close> finds nothing in the empty collection,
  another request creates \<open>Rust\<close> (identifier \<open>id_b\<close>) before this call creates
  it, the creation is refused, a second lookup would find the winner, and yet the call
  ends in the duplicate key error and not in \<open>id_b\<close>.
\<close>

theorem getOrCreateSkill_absorbs_violation_counterexample:
  "\<not> isHex24 ''Rust''
   \<and> Skill_findOne_regex pcre_none (trim ''Rust'') [] = None
   \<and> Skill_create id_c (trim ''Rust'') (rival_creates_Rust []) = Inl DuplicateKey
   \<and> Skill_findOne_regex pcre_none (trim ''Rust'') (rival_creates_Rust [])
       = Some \<lparr>skill_id = id_b, skill_name = ''Rust''\<rparr>
   \<and> getOrCreateSkill isHex24 pcre_none rival_creates_Rust id_c ''Rust'' []
       = (Inl DuplicateKey, [\<lparr>skill_id = id_b, skill_name = ''Rust''\<rparr>])
   \<and> fst (getOrCreateSkill isHex24 pcre_none rival_creates_Rust id_c ''Rust'' []) \<noteq> Inr id_b"
  by (simp add: isHex24_def Skill_findOne_regex_def Skill_create_def rival_creates_Rust_def
      getOrCreateSkill_def regexAnchoredI_def trim_def isWhiteSpace_def isPlainChar_def
      toLower_def toLowerChar_def Let_def)

section \<open>Uniqueness of skill names\<close>

text \<open>
  C4. With a skill \<open>python\<close> stored, creating \<open>Python\<close> succeeds with 201 and
  leaves two skills whose names are equal up to case, where the resolver on the same
  token finds the stored skill; renaming another skill to \<open>PYTHON\<close> succeeds as well.
\<close>

theorem createSkill_case_variant_accepted:
  "createSkill id_b (Some ''Python'') [\<lparr>skill_id = id_a, skill_name = ''python''\<rparr>]
     = (Response 201 (SkillDoc \<lparr>skill_id = id_b, skill_name = ''Python''\<rparr>),
        [\<lparr>skill_id = id_a, skill_name = ''python''\<rparr>, \<lparr>skill_id = id_b, skill_name = ''Python''\<rparr>])
   \<and> skill_names_unique [\<lparr>skill_id = id_a, skill_name = ''python''\<rparr>]
   \<and> \<not> skill_names_unique
         (snd (createSkill id_b (Some ''Python'') [\<lparr>skill_id = id_a, skill_name = ''python''\<rparr>]))
   \<and> getOrCreateSkill isHex24 pcre_none alone id_b ''Python'' [\<lparr>skill_id = id_a, skill_name = ''python''\<rparr>]
     = (Inr id_a, [\<lparr>skill_id = id_a, skill_name = ''python''\<rparr>])
   \<and> updateSkill isHex24 id_b (Some ''PYTHON'')
        [\<lparr>skill_id = id_a, skill_name = ''python''\<rparr>, \<lparr>skill_id = id_b, skill_name = ''Java''\<rparr>]
     = (Response 200 (SkillDoc \<lparr>skill_id = id_b, skill_name = ''PYTHON''\<rparr>),
        [\<lparr>skill_id = id_a, skill_name = ''python''\<rparr>, \<lparr>skill_id = id_b, skill_name = ''PYTHON''\<rparr>])
   \<and> \<not> skill_names_unique
        [\<lparr>skill_id = id_a, skill_name = ''python''\<rparr>, \<lparr>skill_id = id_b, skill_name = ''PYTHON''\<rparr>]"
  by (simp add: createSkill_def updateSkill_def Skill_create_def skill_names_unique_def
      getOrCreateSkill_def Skill_findOne_regex_def regexAnchoredI_def isPlainChar_def isHex24_def
      trim_def isWhiteSpace_def toLower_def toLowerChar_def Let_def id_a_def id_b_def)

section \<open>One connection for a pair of users\<close>


















lemma User_findById_member:
  "ident \<in> set (map user_id users) \<Longrightarrow> \<exists>u. User_findById ident users = Some u"
  by (cases "User_findById ident users") (auto simp: User_findById_def find_None_iff)




section \<open>Accepting a request\<close>







section \<open>Status between two users\<close>



section \<open>Removing a connection\<close>








section \<open>Sending a message\<close>








section \<open>All connections of a user\<close>

lemma User_findById_id: "User_findById ident users = Some u \<Longrightarrow> user_id u = ident"
  by (auto simp: User_findById_def find_Some_iff)

lemma populate_requester:
  assumes "requester c \<in> set (map user_id users)"
  shows "\<exists>d. pc_requester (populate users c) = Some d \<and> sum_id d = requester c"
proof -
  obtain u where u: "User_findById (requester c) users = Some u"
    using User_findById_member [OF assms] by blast
  then show ?thesis
    using User_findById_id [OF u] by (simp add: populate_def summary_def)
qed

lemma populate_recipient:
  assumes "recipient c \<in> set (map user_id users)"
  shows "\<exists>d. pc_recipient (populate users c) = Some d \<and> sum_id d = recipient c"
proof -
  obtain u where u: "User_findById (recipient c) users = Some u"
    using User_findById_member [OF assms] by blast
  then show ?thesis
    using User_findById_id [OF u] by (simp add: populate_def summary_def)
qed

lemma length_filter_exclusive:
  "\<forall>x\<in>set xs. P x \<noteq> Q x \<Longrightarrow> length (filter P xs) + length (filter Q xs) = length xs"
  by (induction xs) auto

lemma getUserConnections_member:
  assumes "p \<in> set (getUserConnections users userId st conns)"
  shows "\<exists>c\<in>set conns. p = populate users c \<and> (requester c = userId \<or> recipient c = userId)"
  using assms by (auto simp: getUserConnections_def)

lemma getAllConnectionRequests_connections:
  "\<exists>st. (case statusParam of
            None \<Rightarrow> getUserConnections users userId None conns
          | Some q \<Rightarrow>
              (case parseStatus q of
                 Some v \<Rightarrow> getUserConnections users userId (Some v) conns
               | None \<Rightarrow> getUserConnections users userId None conns))
        = getUserConnections users userId st conns"
  by (auto split: option.splits)

text \<open>
  Were the text of a populated reference the identifier of the user it stands for
  (\<open>sum_id\<close> in place of the document's \<^verbatim>\<open>toString\<close>), then, with no connection
  of a user to themselves and every referenced user present, each returned connection
  would be in exactly one of \<open>sent\<close> and \<open>received\<close>, and the count would be the
  sum of their lengths.
\<close>

lemma getAllConnectionRequests_partition_by_identifier:
  assumes "\<forall>c\<in>set conns. requester c \<noteq> recipient c"
    and "\<forall>c\<in>set conns. requester c \<in> set (map user_id users)
                          \<and> recipient c \<in> set (map user_id users)"
  shows "\<exists>sent received everything.
           getAllConnectionRequests sum_id users userId statusParam conns
             = Response 200 (AllConnections (length everything) sent received everything)
         \<and> length everything = length sent + length received
         \<and> (\<forall>p\<in>set everything. (p \<in> set sent) \<noteq> (p \<in> set received))"
proof -
  obtain st where st: "(case statusParam of
            None \<Rightarrow> getUserConnections users userId None conns
          | Some q \<Rightarrow>
              (case parseStatus q of
                 Some v \<Rightarrow> getUserConnections users userId (Some v) conns
               | None \<Rightarrow> getUserConnections users userId None conns))
        = getUserConnections users userId st conns"
    using getAllConnectionRequests_connections by blast
  define everything where "everything = getUserConnections users userId st conns"
  define P where "P = (\<lambda>p::populated_connection. refToString sum_id (pc_requester p) = Inr userId)"
  define Q where "Q = (\<lambda>p::populated_connection. refToString sum_id (pc_recipient p) = Inr userId)"
  have each: "pc_requester p \<noteq> None \<and> pc_recipient p \<noteq> None \<and> P p \<noteq> Q p"
    if pe: "p \<in> set everything" for p
  proof -
    obtain c where c: "c \<in> set conns" "p = populate users c"
      "requester c = userId \<or> recipient c = userId"
      using getUserConnections_member [OF pe [unfolded everything_def]] by blast
    obtain d e where "pc_requester p = Some d" "sum_id d = requester c"
      "pc_recipient p = Some e" "sum_id e = recipient c"
      using populate_requester [of c users] populate_recipient [of c users] assms(2) c(1,2)
      by blast
    then show ?thesis
      using c(1,3) assms(1) by (auto simp: P_def Q_def refToString_def)
  qed
  have nonull: "\<not> list_ex (\<lambda>conn. pc_requester conn = None) everything"
    "\<not> list_ex (\<lambda>conn. pc_recipient conn = None) everything"
    using each by (auto simp: list_ex_iff)
  have r: "getAllConnectionRequests sum_id users userId statusParam conns
             = Response 200 (AllConnections (length everything) (filter P everything)
                 (filter Q everything) everything)"
    using nonull
    by (simp add: getAllConnectionRequests_def st everything_def [symmetric] P_def Q_def Let_def)
  have l: "length everything = length (filter P everything) + length (filter Q everything)"
    using length_filter_exclusive [of everything P Q] each by simp
  have m: "\<forall>p\<in>set everything. (p \<in> set (filter P everything)) \<noteq> (p \<in> set (filter Q everything))"
    using each by simp
  show ?thesis
    using r l m by blast
qed

text \<open>
  With a \<^verbatim>\<open>toString\<close> that never yields the user's identifier, as that of a
  document, the response is an error or has both lists empty.
\<close>

lemma getAllConnectionRequests_toString_not_identifier:
  assumes "\<forall>d. docToString d \<noteq> userId"
  shows "getAllConnectionRequests docToString users userId statusParam conns
           = Response 500 (ServerError TypeError)
       \<or> (\<exists>everything.
             getAllConnectionRequests docToString users userId statusParam conns
               = Response 200 (AllConnections (length everything) [] [] everything))"
proof -
  have "filter (\<lambda>conn. refToString docToString (pc_requester conn) = Inr userId) xs = []"
    and "filter (\<lambda>conn. refToString docToString (pc_recipient conn) = Inr userId) xs = []"
    for xs :: "populated_connection list"
    using assms by (auto simp: filter_empty_conv refToString_def split: option.splits)
  then show ?thesis
    by (simp add: getAllConnectionRequests_def Let_def)
qed


text \<open>
  C10. Two users and one connection between them. The query of either user returns the
  connection under \<open>all\<close> with count 1, and both \<open>sent\<close> and \<open>received\<close> are
  empty: the references of a returned connection are populated, so the text compared
  with the user's identifier is that of a user document. The connection is in neither
  list, and the count is not the sum of their lengths.
\<close>

theorem getAllConnectionRequests_sent_received_empty:
  "getAllConnectionRequests inspect_summary users_ab id_a None [conn_ab PENDING]
     = Response 200 (AllConnections 1 [] [] [populate users_ab (conn_ab PENDING)])
   \<and> getAllConnectionRequests inspect_summary users_ab id_b None [conn_ab PENDING]
     = Response 200 (AllConnections 1 [] [] [populate users_ab (conn_ab PENDING)])
   \<and> pc_requester (populate users_ab (conn_ab PENDING))
     = Some \<lparr>sum_id = id_a, sum_name = ''Asha'', sum_email = ''asha@example.com'',
              sum_photoURL = ''a.png''\<rparr>
   \<and> requester (conn_ab PENDING) \<noteq> recipient (conn_ab PENDING)"
  by (simp add: getAllConnectionRequests_def getUserConnections_def populate_def
      User_findById_def users_ab_def conn_ab_def summary_def refToString_def inspect_summary_def
      id_a_def id_b_def)

end
